theory Spec2Isabelle
  imports Complex_Main
begin

section \<open>Floating-point values\<close>

text \<open>
  The scripts compute on numpy \<open>float64\<close> values. A finite float is modelled as the
  real number it denotes (no rounding, no overflow, no signed zero); the three
  non-finite values are kept apart, because numpy's division by zero does not raise:
  it yields \<open>inf\<close>, \<open>-inf\<close> or \<open>nan\<close>. Candle fields (open, high, low, close,
  volume) are finite, so they are plain reals; every value that the code obtains through
  a division, a mean or a standard deviation is an \<open>npfloat\<close>.
\<close>

datatype npfloat = Fin real | PInf | NInf | NaN


fun fp_neg :: "npfloat \<Rightarrow> npfloat" where
  "fp_neg (Fin x) = Fin (- x)"
| "fp_neg PInf = NInf"
| "fp_neg NInf = PInf"
| "fp_neg NaN = NaN"

fun fp_add :: "npfloat \<Rightarrow> npfloat \<Rightarrow> npfloat" where
  "fp_add (Fin a) (Fin b) = Fin (a + b)"
| "fp_add NaN y = NaN"
| "fp_add x NaN = NaN"
| "fp_add PInf NInf = NaN"
| "fp_add NInf PInf = NaN"
| "fp_add PInf y = PInf"
| "fp_add x PInf = PInf"
| "fp_add NInf y = NInf"
| "fp_add x NInf = NInf"

definition fp_sub :: "npfloat \<Rightarrow> npfloat \<Rightarrow> npfloat" where
  "fp_sub x y = fp_add x (fp_neg y)"

fun fp_mul :: "npfloat \<Rightarrow> npfloat \<Rightarrow> npfloat" where
  "fp_mul (Fin a) (Fin b) = Fin (a * b)"
| "fp_mul NaN y = NaN"
| "fp_mul x NaN = NaN"
| "fp_mul PInf (Fin b) = (if b = 0 then NaN else if 0 < b then PInf else NInf)"
| "fp_mul NInf (Fin b) = (if b = 0 then NaN else if 0 < b then NInf else PInf)"
| "fp_mul (Fin a) PInf = (if a = 0 then NaN else if 0 < a then PInf else NInf)"
| "fp_mul (Fin a) NInf = (if a = 0 then NaN else if 0 < a then NInf else PInf)"
| "fp_mul PInf PInf = PInf"
| "fp_mul PInf NInf = NInf"
| "fp_mul NInf PInf = NInf"
| "fp_mul NInf NInf = PInf"

text \<open>numpy's \<open>/\<close> on \<open>float64\<close>: a zero denominator gives a non-finite value.\<close>

fun fp_div :: "npfloat \<Rightarrow> npfloat \<Rightarrow> npfloat" where
  "fp_div (Fin a) (Fin b) =
     (if b \<noteq> 0 then Fin (a / b)
      else if 0 < a then PInf else if a < 0 then NInf else NaN)"
| "fp_div NaN y = NaN"
| "fp_div x NaN = NaN"
| "fp_div (Fin a) PInf = Fin 0"
| "fp_div (Fin a) NInf = Fin 0"
| "fp_div PInf (Fin b) = (if 0 \<le> b then PInf else NInf)"
| "fp_div NInf (Fin b) = (if 0 \<le> b then NInf else PInf)"
| "fp_div PInf PInf = NaN"
| "fp_div PInf NInf = NaN"
| "fp_div NInf PInf = NaN"
| "fp_div NInf NInf = NaN"

text \<open>The comparisons \<open>>\<close> and \<open><\<close>: every comparison with \<open>nan\<close> is false.\<close>

fun fp_gt :: "npfloat \<Rightarrow> npfloat \<Rightarrow> bool" where
  "fp_gt (Fin a) (Fin b) = (b < a)"
| "fp_gt NaN y = False"
| "fp_gt x NaN = False"
| "fp_gt PInf PInf = False"
| "fp_gt PInf y = True"
| "fp_gt NInf y = False"
| "fp_gt (Fin a) PInf = False"
| "fp_gt (Fin a) NInf = True"

definition fp_lt :: "npfloat \<Rightarrow> npfloat \<Rightarrow> bool" where
  "fp_lt x y = fp_gt y x"

text \<open>
  Array indices are natural numbers. Every loop of the scripts starts at 200 (at 30 in the
  backtest) and looks back at most 200 (30) positions, so no index expression \<open>i - k\<close> is
  negative and Python's wrap-around for negative indices is never reached; every read
  \<open>xs[i + k]\<close> is below the loop's upper bound. Python's slice \<open>xs[a:b]\<close> never raises.
\<close>

definition slice :: "'a list \<Rightarrow> nat \<Rightarrow> nat \<Rightarrow> 'a list" where
  "slice xs a b = take (b - a) (drop a xs)"

text \<open>\<open>np.mean\<close> and \<open>np.std\<close>: \<open>nan\<close> on an empty array.\<close>

definition np_mean :: "real list \<Rightarrow> npfloat" where
  "np_mean xs = (if xs = [] then NaN else Fin (sum_list xs / real (length xs)))"

definition np_std :: "real list \<Rightarrow> npfloat" where
  "np_std xs =
     (if xs = [] then NaN
      else let m = sum_list xs / real (length xs)
           in Fin (sqrt (sum_list (map (\<lambda>x. (x - m)\<^sup>2) xs) / real (length xs))))"

section \<open>scripts/backtest\_models.py\<close>

datatype py_error = TypeError | KeyError

definition SEQ_LENGTH :: nat where
  "SEQ_LENGTH = 30"

definition ASSETS :: "string list" where
  "ASSETS = [''BTC'', ''ETH'', ''SOL'', ''LTC'']"

text \<open>
  The test data of one asset is the array \<open>df[["Close", "Volume"]].values\<close>: one
  (close, volume) row per candle.
\<close>

type_synonym candle_cv = "real \<times> real"

text \<open>
  What \<open>ai_strategy\<close> reads from outside: whether the model and scaler files exist,
  the scaler's mean and std (one entry per column), and the ONNX session, \<open>None\<close> when
  loading it raises. A session maps an input window to the predicted value, \<open>None\<close>
  when anything inside the \<open>try\<close> block raises.
\<close>

record ai_env =
  model_exists :: bool
  scaler_exists :: bool
  scaler_mean :: "real \<times> real"
  scaler_std :: "real \<times> real"
  session :: "((npfloat \<times> npfloat) list \<Rightarrow> npfloat option) option"

definition scale_data :: "ai_env \<Rightarrow> candle_cv list \<Rightarrow> (npfloat \<times> npfloat) list" where
  "scale_data env data =
     map (\<lambda>(c, v).
           (fp_div (fp_sub (Fin c) (Fin (fst (scaler_mean env)))) (Fin (fst (scaler_std env))),
            fp_div (fp_sub (Fin v) (Fin (snd (scaler_mean env)))) (Fin (snd (scaler_std env)))))
         data"

definition actual_direction :: "candle_cv list \<Rightarrow> nat \<Rightarrow> int" where
  "actual_direction data i = (if fst (data ! (i + 1)) > fst (data ! i) then 1 else - 1)"

text \<open>
  The loop of \<open>ai_strategy\<close> over \<open>range(SEQ_LENGTH, len(scaled_data) - 1)\<close>: each
  \<open>i\<close> with its window \<open>scaled_data[i-SEQ_LENGTH:i]\<close>, the model's input.
\<close>

definition ai_windows :: "(npfloat \<times> npfloat) list \<Rightarrow> (nat \<times> (npfloat \<times> npfloat) list) list" where
  "ai_windows scaled_data =
     map (\<lambda>i. (i, slice scaled_data (i - SEQ_LENGTH) i)) [SEQ_LENGTH ..< length scaled_data - 1]"

definition ai_predicted_direction ::
  "((npfloat \<times> npfloat) list \<Rightarrow> npfloat option) \<Rightarrow> (npfloat \<times> npfloat) list
     \<Rightarrow> nat \<times> (npfloat \<times> npfloat) list \<Rightarrow> int" where
  "ai_predicted_direction run scaled_data w =
     (case run (snd w) of
        Some predicted_value \<Rightarrow>
          (if fp_gt predicted_value (fst (scaled_data ! (fst w))) then 1 else - 1)
      | None \<Rightarrow> 0)"

definition ai_strategy ::
  "ai_env \<Rightarrow> candle_cv list \<Rightarrow> int list option \<times> int list option" where
  "ai_strategy env data =
     (if \<not> model_exists env then (None, None)
      else if \<not> scaler_exists env then (None, None)
      else let scaled_data = scale_data env data in
        case session env of
          None \<Rightarrow> (None, None)
        | Some run \<Rightarrow>
            (Some (map (\<lambda>w. ai_predicted_direction run scaled_data w) (ai_windows scaled_data)),
             Some (map (\<lambda>w. actual_direction data (fst w)) (ai_windows scaled_data))))"

definition heuristic_predicted_direction :: "candle_cv list \<Rightarrow> nat \<Rightarrow> int" where
  "heuristic_predicted_direction data i =
     (let sma_short = np_mean (map fst (slice data (i - 5) i));
          sma_long = np_mean (map fst (slice data (i - 20) i))
      in if fp_gt sma_short sma_long then 1 else - 1)"

definition heuristic_strategy :: "candle_cv list \<Rightarrow> int list option \<times> int list option" where
  "heuristic_strategy data =
     (Some (map (\<lambda>i. heuristic_predicted_direction data i) [30 ..< length data - 1]),
      Some (map (\<lambda>i. actual_direction data i) [30 ..< length data - 1]))"

definition buyhold_strategy :: "candle_cv list \<Rightarrow> int list option \<times> int list option" where
  "buyhold_strategy data =
     (Some (map (\<lambda>i. 1) [30 ..< length data - 1]),
      Some (map (\<lambda>i. actual_direction data i) [30 ..< length data - 1]))"

text \<open>
  Python's \<open>round(x, 2)\<close>: to the nearest multiple of 0.01, a tie going to the even
  neighbour.
\<close>

definition round_half_even :: "real \<Rightarrow> int" where
  "round_half_even y =
     (let f = \<lfloor>y\<rfloor>; d = y - of_int f
      in if d < 1 / 2 then f else if 1 / 2 < d then f + 1 else if even f then f else f + 1)"

definition py_round2 :: "real \<Rightarrow> real" where
  "py_round2 x = of_int (round_half_even (x * 100)) / 100"

record metrics =
  asset :: string
  strategy :: string
  accuracy :: real
  total_return :: real
  num_predictions :: nat

definition count_correct :: "int list \<Rightarrow> int list \<Rightarrow> nat" where
  "count_correct predictions actuals =
     length (filter (\<lambda>(p, a). p = a) (zip predictions actuals))"

definition trade_returns :: "int list \<Rightarrow> int list \<Rightarrow> real list" where
  "trade_returns predictions actuals =
     map (\<lambda>(p, a). if p = a then 1 / 100 else - (1 / 100)) (zip predictions actuals)"

text \<open>
  \<open>calculate_metrics\<close>. \<open>actuals\<close> is \<open>None\<close> only together with \<open>predictions\<close>;
  \<open>zip\<close> on \<open>None\<close> would raise \<open>TypeError\<close>.
\<close>

definition calculate_metrics ::
  "int list option \<Rightarrow> int list option \<Rightarrow> string \<Rightarrow> string \<Rightarrow> py_error + metrics option" where
  "calculate_metrics predictions actuals strategy_name asset_name =
     (case predictions of
        None \<Rightarrow> Inr None
      | Some ps \<Rightarrow>
          if length ps = 0 then Inr None
          else (case actuals of
                  None \<Rightarrow> Inl TypeError
                | Some acts \<Rightarrow>
                    let correct = count_correct ps acts;
                        accuracy_v = (real correct / real (length ps)) * 100;
                        total_return_v = sum_list (trade_returns ps acts) * 100
                    in Inr (Some \<lparr> asset = asset_name, strategy = strategy_name,
                                    accuracy = py_round2 accuracy_v,
                                    total_return = py_round2 total_return_v,
                                    num_predictions = length ps \<rparr>)))"

text \<open>
  One iteration of the loop of \<open>main\<close> over \<open>ASSETS\<close>: the records it appends to
  \<open>results\<close>. \<open>data\<close> is what \<open>fetch_test_data\<close> returned (\<open>None\<close>: the asset is
  skipped).
\<close>

definition append_metrics :: "py_error + metrics option \<Rightarrow> metrics list \<Rightarrow> py_error + metrics list" where
  "append_metrics m results =
     (case m of
        Inl e \<Rightarrow> Inl e
      | Inr None \<Rightarrow> Inr results
      | Inr (Some r) \<Rightarrow> Inr (results @ [r]))"

definition run_asset ::
  "ai_env \<Rightarrow> string \<Rightarrow> candle_cv list option \<Rightarrow> metrics list \<Rightarrow> py_error + metrics list" where
  "run_asset env asset_name fetched results =
     (case fetched of
        None \<Rightarrow> Inr results
      | Some data \<Rightarrow>
          (let (ai_pred, ai_actual) = ai_strategy env data in
           case append_metrics (calculate_metrics ai_pred ai_actual ''AI Model'' asset_name) results of
             Inl e \<Rightarrow> Inl e
           | Inr results1 \<Rightarrow>
               (let (heur_pred, heur_actual) = heuristic_strategy data in
                case append_metrics (calculate_metrics heur_pred heur_actual ''Heuristic'' asset_name) results1 of
                  Inl e \<Rightarrow> Inl e
                | Inr results2 \<Rightarrow>
                    (let (bh_pred, bh_actual) = buyhold_strategy data in
                     append_metrics (calculate_metrics bh_pred bh_actual ''Buy & Hold'' asset_name) results2))))"

fun run_assets ::
  "(string \<Rightarrow> ai_env) \<Rightarrow> (string \<Rightarrow> candle_cv list option) \<Rightarrow> string list \<Rightarrow> metrics list
     \<Rightarrow> py_error + metrics list" where
  "run_assets envs fetch [] results = Inr results"
| "run_assets envs fetch (a # rest) results =
     (case run_asset (envs a) a (fetch a) results of
        Inl e \<Rightarrow> Inl e
      | Inr results' \<Rightarrow> run_assets envs fetch rest results')"

definition main_results ::
  "(string \<Rightarrow> ai_env) \<Rightarrow> (string \<Rightarrow> candle_cv list option) \<Rightarrow> py_error + metrics list" where
  "main_results envs fetch = run_assets envs fetch ASSETS []"

text \<open>
  The summary line of one strategy: \<open>df[df['strategy'] == strategy]\<close>, then the
  \<open>mean()\<close> of its \<open>accuracy\<close> and \<open>total_return\<close> columns, printed only when the
  selection is not empty. A DataFrame built from an empty \<open>results\<close> has no
  \<open>strategy\<close> column, and selecting it raises \<open>KeyError\<close>.
\<close>

definition column_mean :: "real list \<Rightarrow> real" where
  "column_mean xs = sum_list xs / real (length xs)"

definition strategy_summary :: "metrics list \<Rightarrow> string \<Rightarrow> py_error + (real \<times> real) option" where
  "strategy_summary results strategy_name =
     (if results = [] then Inl KeyError
      else let strategy_data = filter (\<lambda>m. strategy m = strategy_name) results
           in if length strategy_data > 0
              then Inr (Some (column_mean (map accuracy strategy_data),
                              column_mean (map total_return strategy_data)))
              else Inr None)"

section \<open>scripts/train\_multi\_timeframe.py\<close>

text \<open>One row of the \<open>ohlcv\<close> array: open, high, low, close, volume.\<close>

record candle =
  c_open :: real
  c_high :: real
  c_low :: real
  c_close :: real
  c_volume :: real

definition HOLD :: nat where "HOLD = 1"

text \<open>\<open>np.diff\<close>, \<open>np.max\<close> and \<open>np.min\<close> (the last two on arrays that are not empty).\<close>

definition np_diff :: "real list \<Rightarrow> real list" where
  "np_diff xs = map (\<lambda>(a, b). b - a) (zip xs (tl xs))"

definition np_max :: "real list \<Rightarrow> real" where
  "np_max xs = Max (set xs)"

definition np_min :: "real list \<Rightarrow> real" where
  "np_min xs = Min (set xs)"

definition rsi_mt :: "real list \<Rightarrow> nat \<Rightarrow> npfloat" where
  "rsi_mt closes i =
     (let gains = map (\<lambda>d. max d 0) (np_diff (slice closes (i - 14) (i + 1)));
          losses = map (\<lambda>d. max (- d) 0) (np_diff (slice closes (i - 14) (i + 1)));
          avg_gain = (if length gains > 0 then np_mean gains else Fin 0);
          avg_loss = (if length losses > 0 then np_mean losses else Fin 0);
          rs = (if avg_loss \<noteq> Fin 0 then fp_div avg_gain avg_loss else Fin 0)
      in fp_sub (Fin 100) (fp_div (Fin 100) (fp_add (Fin 1) rs)))"

definition macd_mt :: "real list \<Rightarrow> nat \<Rightarrow> npfloat" where
  "macd_mt closes i =
     (let ema12 = np_mean (slice closes (i - 11) (i + 1));
          ema26 = np_mean (slice closes (i - 25) (i + 1))
      in if closes ! i \<noteq> 0 then fp_div (fp_sub ema12 ema26) (Fin (closes ! i)) else Fin 0)"

definition bb_upper_mt :: "real list \<Rightarrow> nat \<Rightarrow> npfloat" where
  "bb_upper_mt closes i =
     fp_add (np_mean (slice closes (i - 19) (i + 1)))
            (fp_mul (Fin 2) (np_std (slice closes (i - 19) (i + 1))))"

definition bb_lower_mt :: "real list \<Rightarrow> nat \<Rightarrow> npfloat" where
  "bb_lower_mt closes i =
     fp_sub (np_mean (slice closes (i - 19) (i + 1)))
            (fp_mul (Fin 2) (np_std (slice closes (i - 19) (i + 1))))"

definition bb_width_mt :: "real list \<Rightarrow> nat \<Rightarrow> npfloat" where
  "bb_width_mt closes i =
     (if closes ! i \<noteq> 0
      then fp_div (fp_sub (bb_upper_mt closes i) (bb_lower_mt closes i)) (Fin (closes ! i))
      else Fin 0)"

definition bb_position_mt :: "real list \<Rightarrow> nat \<Rightarrow> npfloat" where
  "bb_position_mt closes i =
     (if fp_sub (bb_upper_mt closes i) (bb_lower_mt closes i) \<noteq> Fin 0
      then fp_div (fp_sub (Fin (closes ! i)) (bb_lower_mt closes i))
                  (fp_sub (bb_upper_mt closes i) (bb_lower_mt closes i))
      else Fin (1 / 2))"

definition sma_20_50_mt :: "real list \<Rightarrow> nat \<Rightarrow> npfloat" where
  "sma_20_50_mt closes i =
     (if fp_gt (np_mean (slice closes (i - 19) (i + 1))) (np_mean (slice closes (i - 49) (i + 1)))
      then Fin 1 else Fin 0)"

definition sma_50_200_mt :: "real list \<Rightarrow> nat \<Rightarrow> npfloat" where
  "sma_50_200_mt closes i =
     (if fp_gt (np_mean (slice closes (i - 49) (i + 1))) (np_mean (slice closes (i - 199) (i + 1)))
      then Fin 1 else Fin 0)"

definition momentum_mt :: "real list \<Rightarrow> nat \<Rightarrow> npfloat" where
  "momentum_mt closes i =
     (if closes ! (i - 10) \<noteq> 0
      then fp_div (Fin (closes ! i - closes ! (i - 10))) (Fin (closes ! (i - 10)))
      else Fin 0)"

definition vol_ratio_mt :: "real list \<Rightarrow> nat \<Rightarrow> npfloat" where
  "vol_ratio_mt volumes i =
     (if np_mean (slice volumes (i - 19) (i + 1)) \<noteq> Fin 0
      then fp_div (Fin (volumes ! i)) (np_mean (slice volumes (i - 19) (i + 1)))
      else Fin 1)"

text \<open>The true range of candle \<open>j\<close>, as both scripts compute it.\<close>

definition true_range :: "real list \<Rightarrow> real list \<Rightarrow> real list \<Rightarrow> nat \<Rightarrow> real" where
  "true_range highs lows closes j =
     max (highs ! j - lows ! j)
         (max \<bar>highs ! j - closes ! (j - 1)\<bar> \<bar>lows ! j - closes ! (j - 1)\<bar>)"

definition atr_mt :: "real list \<Rightarrow> real list \<Rightarrow> real list \<Rightarrow> nat \<Rightarrow> npfloat" where
  "atr_mt highs lows closes i =
     (let tr = true_range highs lows closes i
      in if closes ! i \<noteq> 0 then fp_div (Fin tr) (Fin (closes ! i)) else Fin 0)"

definition stochastic_mt :: "real list \<Rightarrow> real list \<Rightarrow> real list \<Rightarrow> nat \<Rightarrow> npfloat" where
  "stochastic_mt highs lows closes i =
     (let high_14 = np_max (slice highs (i - 13) (i + 1));
          low_14 = np_min (slice lows (i - 13) (i + 1))
      in if high_14 - low_14 \<noteq> 0
         then fp_mul (fp_div (Fin (closes ! i - low_14)) (Fin (high_14 - low_14))) (Fin 100)
         else Fin 50)"

definition obv_change_mt :: "real list \<Rightarrow> nat \<Rightarrow> npfloat" where
  "obv_change_mt volumes i =
     (if volumes ! (i - 5) \<noteq> 0
      then fp_div (Fin (volumes ! i - volumes ! (i - 5))) (Fin (volumes ! (i - 5)))
      else Fin 0)"

definition feature_row_mt :: "candle list \<Rightarrow> nat \<Rightarrow> npfloat list" where
  "feature_row_mt ohlcv i =
     (let closes = map c_close ohlcv;
          highs = map c_high ohlcv;
          lows = map c_low ohlcv;
          volumes = map c_volume ohlcv
      in [rsi_mt closes i, macd_mt closes i, bb_width_mt closes i, bb_position_mt closes i,
          sma_20_50_mt closes i, sma_50_200_mt closes i, momentum_mt closes i,
          vol_ratio_mt volumes i, atr_mt highs lows closes i,
          fp_div (stochastic_mt highs lows closes i) (Fin 100), obv_change_mt volumes i])"

definition calculate_features :: "candle list \<Rightarrow> npfloat list list" where
  "calculate_features ohlcv = map (\<lambda>i. feature_row_mt ohlcv i) [200 ..< length ohlcv]"

definition price_change :: "real list \<Rightarrow> nat \<Rightarrow> nat \<Rightarrow> npfloat" where
  "price_change closes lookahead_candles i =
     (let future_price = closes ! (i + lookahead_candles);
          current_price = closes ! i
      in fp_mul (fp_div (Fin (future_price - current_price)) (Fin current_price)) (Fin 100))"

definition create_labels :: "real list \<Rightarrow> nat \<Rightarrow> nat list" where
  "create_labels closes lookahead_candles =
     map (\<lambda>i. if fp_gt (price_change closes lookahead_candles i) (Fin 2) then 2
               else if fp_lt (price_change closes lookahead_candles i) (Fin (- 2)) then 0
               else 1)
         [200 ..< length closes - lookahead_candles]"

section \<open>scripts/train\_lstm\_signal.py\<close>

definition SEQUENCE_LENGTH :: nat where
  "SEQUENCE_LENGTH = 60"

definition rsi_lstm :: "real list \<Rightarrow> nat \<Rightarrow> npfloat" where
  "rsi_lstm closes i =
     (if i \<ge> 14 then
        (let gains = sum_list (map (\<lambda>j. max (closes ! j - closes ! (j - 1)) 0) [i - 14 ..< i]) / 14;
             losses = sum_list (map (\<lambda>j. max (closes ! (j - 1) - closes ! j) 0) [i - 14 ..< i]) / 14
         in if losses = 0 then Fin 100
            else fp_sub (Fin 100)
                   (fp_div (Fin 100) (fp_add (Fin 1) (fp_div (Fin gains) (Fin losses)))))
      else Fin 0)"










definition atr_lstm :: "real list \<Rightarrow> real list \<Rightarrow> real list \<Rightarrow> nat \<Rightarrow> npfloat" where
  "atr_lstm highs lows closes i =
     (if i \<ge> 14 then
        (let atr = np_mean (map (\<lambda>j. true_range highs lows closes j) [i - 14 ..< i])
         in if closes ! i \<noteq> 0 then fp_div atr (Fin (closes ! i)) else Fin 0)
      else Fin 0)"




definition future_return :: "real list \<Rightarrow> nat \<Rightarrow> nat \<Rightarrow> npfloat" where
  "future_return closes look_ahead i =
     (let current_price = closes ! i;
          future_price = closes ! (i + look_ahead)
      in fp_mul (fp_div (Fin (future_price - current_price)) (Fin current_price)) (Fin 100))"

text \<open>The values that \<open>i\<close> takes in the loop of \<open>create_sequences\<close> (\<open>start_idx = 200\<close>).\<close>

definition sequence_anchors :: "real list \<Rightarrow> nat \<Rightarrow> nat \<Rightarrow> nat list" where
  "sequence_anchors closes seq_length look_ahead =
     [200 + seq_length ..< length closes - look_ahead]"

definition create_sequences ::
  "'f list \<Rightarrow> real list \<Rightarrow> nat \<Rightarrow> nat \<Rightarrow> 'f list list \<times> nat list" where
  "create_sequences features closes seq_length look_ahead =
     (map (\<lambda>i. slice features (i - seq_length) i) (sequence_anchors closes seq_length look_ahead),
      map (\<lambda>i. if fp_gt (future_return closes look_ahead i) (Fin (15 / 100)) then 2
                else if fp_lt (future_return closes look_ahead i) (Fin (- (15 / 100))) then 0
                else 1)
          (sequence_anchors closes seq_length look_ahead))"

section \<open>The pooled aggregate of the specification\<close>

text \<open>
  The pooled alternative that the specification contrasts with the code's aggregation:
  the accuracy recomputed over the combined samples of all assets.
\<close>

definition pooled_accuracy :: "(int list \<times> int list) list \<Rightarrow> real" where
  "pooled_accuracy samples =
     100 * real (sum_list (map (\<lambda>(ps, acts). count_correct ps acts) samples))
         / real (sum_list (map (\<lambda>(ps, acts). length ps) samples))"

definition pooled_return :: "(int list \<times> int list) list \<Rightarrow> real" where
  "pooled_return samples =
     sum_list (map (\<lambda>(ps, acts). sum_list (trade_returns ps acts) * 100) samples)"

section \<open>Concrete inputs\<close>

text \<open>An environment in which both artifacts exist and the session loads, but every inference raises.\<close>

definition env_ok :: ai_env where
  "env_ok = \<lparr> model_exists = True, scaler_exists = True, scaler_mean = (0, 0),
              scaler_std = (1, 1), session = Some (\<lambda>w. None) \<rparr>"

definition env_missing :: ai_env where
  "env_missing = \<lparr> model_exists = False, scaler_exists = True, scaler_mean = (0, 0),
                   scaler_std = (1, 1), session = None \<rparr>"

text \<open>
  A run in which only ETH has its model and scaler, BTC is fetched with 33 candles, ETH with
  5 candles and the other assets are not fetched.
\<close>

definition envs_eth_only :: "string \<Rightarrow> ai_env" where
  "envs_eth_only a = (if a = ''ETH'' then env_ok else env_missing)"

definition fetch_btc_eth :: "string \<Rightarrow> candle_cv list option" where
  "fetch_btc_eth a =
     (if a = ''BTC'' then Some (replicate 33 (100, 5))
      else if a = ''ETH'' then Some (replicate 5 (100, 5)) else None)"

text \<open>Candles and series for the evaluations below.\<close>

definition flat_candle :: candle where
  "flat_candle = \<lparr> c_open = 100, c_high = 100, c_low = 100, c_close = 100, c_volume = 5 \<rparr>"


definition rising_closes :: "real list" where
  "rising_closes = map (\<lambda>j. 100 + real j) [0 ..< 201]"

definition quiet_last_highs :: "real list" where
  "quiet_last_highs = replicate 200 101 @ [100]"

definition quiet_last_lows :: "real list" where
  "quiet_last_lows = replicate 200 99 @ [100]"

definition quiet_last_closes :: "real list" where
  "quiet_last_closes = replicate 201 100"

section \<open>Properties of scripts/backtest\_models.py\<close>

lemma ai_windows_length: "length (ai_windows sd) = length sd - SEQ_LENGTH - 1"
  by (simp add: ai_windows_def)

lemma ai_windows_fst:
  "k < length sd - SEQ_LENGTH - 1 \<Longrightarrow> fst (ai_windows sd ! k) = SEQ_LENGTH + k"
  by (simp add: ai_windows_def)

lemma scale_data_length: "length (scale_data env data) = length data"
  by (simp add: scale_data_def)

text \<open>
  Claim C5. In each of the three strategies the actual direction recorded for index \<open>i\<close>
  is \<open>+1\<close> when \<open>close[i+1] > close[i]\<close> and \<open>-1\<close> otherwise; on a tie
  (\<open>close[i+1] = close[i]\<close>) it is \<open>-1\<close>. The loops run over \<open>range(30, len(data) - 1)\<close>,
  so index \<open>i\<close> is entry \<open>i - 30\<close> of the list of actuals.
\<close>

theorem actual_direction_ties_resolve_down:
  assumes "30 \<le> i" and "i + 1 < length data"
  shows "(\<exists>acts. snd (buyhold_strategy data) = Some acts \<and> length acts = length data - 31
            \<and> acts ! (i - 30) = (if fst (data ! (i + 1)) > fst (data ! i) then 1 else - 1)
            \<and> (fst (data ! (i + 1)) = fst (data ! i) \<longrightarrow> acts ! (i - 30) = - 1))
       \<and> (\<exists>acts. snd (heuristic_strategy data) = Some acts \<and> length acts = length data - 31
            \<and> acts ! (i - 30) = (if fst (data ! (i + 1)) > fst (data ! i) then 1 else - 1)
            \<and> (fst (data ! (i + 1)) = fst (data ! i) \<longrightarrow> acts ! (i - 30) = - 1))
       \<and> (\<forall>acts. snd (ai_strategy env data) = Some acts \<longrightarrow> length acts = length data - 31
            \<and> acts ! (i - 30) = (if fst (data ! (i + 1)) > fst (data ! i) then 1 else - 1)
            \<and> (fst (data ! (i + 1)) = fst (data ! i) \<longrightarrow> acts ! (i - 30) = - 1))"
proof (intro conjI allI impI)
  show "\<exists>acts. snd (buyhold_strategy data) = Some acts \<and> length acts = length data - 31
            \<and> acts ! (i - 30) = (if fst (data ! (i + 1)) > fst (data ! i) then 1 else - 1)
            \<and> (fst (data ! (i + 1)) = fst (data ! i) \<longrightarrow> acts ! (i - 30) = - 1)"
    using assms by (simp add: buyhold_strategy_def actual_direction_def)
  show "\<exists>acts. snd (heuristic_strategy data) = Some acts \<and> length acts = length data - 31
            \<and> acts ! (i - 30) = (if fst (data ! (i + 1)) > fst (data ! i) then 1 else - 1)
            \<and> (fst (data ! (i + 1)) = fst (data ! i) \<longrightarrow> acts ! (i - 30) = - 1)"
    using assms by (simp add: heuristic_strategy_def actual_direction_def)
next
  fix acts
  assume a: "snd (ai_strategy env data) = Some acts"
  then have acts: "acts = map (\<lambda>w. actual_direction data (fst w)) (ai_windows (scale_data env data))"
    by (auto simp: ai_strategy_def Let_def split: if_splits option.splits)
  have k: "i - 30 < length (scale_data env data) - SEQ_LENGTH - 1"
    using assms by (simp add: scale_data_length SEQ_LENGTH_def)
  show "length acts = length data - 31"
    by (simp add: acts ai_windows_length scale_data_length SEQ_LENGTH_def)
  have nth: "acts ! (i - 30) = actual_direction data i"
    using k assms by (simp add: acts ai_windows_length ai_windows_fst SEQ_LENGTH_def)
  show "acts ! (i - 30) = (if fst (data ! (i + 1)) > fst (data ! i) then 1 else - 1)"
    by (simp add: nth actual_direction_def)
  show "acts ! (i - 30) = - 1" if "fst (data ! (i + 1)) = fst (data ! i)"
    using that by (simp add: nth actual_direction_def)
qed


text \<open>A constant series of 32 candles: the one evaluated index is a tie, hence \<open>-1\<close>.\<close>

theorem actual_direction_ties_witness:
  "snd (buyhold_strategy (replicate 32 (100, 5))) = Some [- 1]
   \<and> snd (heuristic_strategy (replicate 32 (100, 5))) = Some [- 1]
   \<and> snd (ai_strategy env_ok (replicate 32 (100, 5))) = Some [- 1]"
  using actual_direction_ties_resolve_down [of 30 "replicate 32 (100, 5)" env_ok]
  by (simp add: buyhold_strategy_def heuristic_strategy_def ai_strategy_def actual_direction_def
      env_ok_def ai_windows_def scale_data_def SEQ_LENGTH_def Let_def)


lemma round_half_even_of_int: "round_half_even (of_int k) = k"
  by (simp add: round_half_even_def)

lemma py_round2_of_int: "py_round2 (of_int k) = of_int k"
proof -
  have "of_int k * (100::real) = of_int (k * 100)" by simp
  then have "round_half_even (of_int k * 100) = k * 100"
    using round_half_even_of_int [of "k * 100"] by simp
  then show ?thesis by (simp add: py_round2_def)
qed

lemma sum_trade_returns:
  "sum_list (map (\<lambda>(p, a). if p = a then 1 / 100 else - (1 / 100) :: real) zs) * 100 =
   real (length (filter (\<lambda>(p, a). p = a) zs)) - real (length (filter (\<lambda>(p, a). p \<noteq> a) zs))"
  by (induction zs) (auto simp: algebra_simps)

lemma length_filter_neq:
  "length (filter (\<lambda>(p, a). p \<noteq> a) zs) = length zs - length (filter (\<lambda>(p, a). p = a) zs)"
proof -
  have "length (filter (\<lambda>(p, a). p = a) zs) + length (filter (\<lambda>(p, a). p \<noteq> a) zs) = length zs"
    by (induction zs) auto
  then show ?thesis by simp
qed

lemma count_correct_card:
  "length ps = length acts \<Longrightarrow>
   count_correct ps acts = card {k. k < length ps \<and> ps ! k = acts ! k}"
proof -
  assume l: "length ps = length acts"
  have "{i. i < length (zip ps acts) \<and> (case zip ps acts ! i of (p, a) \<Rightarrow> p = a)} =
        {k. k < length ps \<and> ps ! k = acts ! k}"
    using l by auto
  then show ?thesis
    by (simp add: count_correct_def length_filter_conv_card)
qed

lemma total_return_value:
  assumes "length ps = length acts"
  shows "py_round2 (sum_list (trade_returns ps acts) * 100) =
         real (count_correct ps acts) - real (length ps - count_correct ps acts)"
proof -
  have le: "count_correct ps acts \<le> length ps"
    using assms length_filter_le [of "\<lambda>(p, a). p = a" "zip ps acts"]
    by (simp add: count_correct_def)
  have "sum_list (trade_returns ps acts) * 100 =
        real (count_correct ps acts) - real (length ps - count_correct ps acts)"
    using assms by (simp add: trade_returns_def sum_trade_returns length_filter_neq count_correct_def)
  also have "\<dots> = of_int (int (count_correct ps acts) - int (length ps - count_correct ps acts))"
    by simp
  finally show ?thesis
    by (simp only: py_round2_of_int)
qed




lemma calculate_metrics_no_predictions:
  "calculate_metrics None actuals s a = Inr None"
  "calculate_metrics (Some []) actuals s a = Inr None"
  by (simp_all add: calculate_metrics_def)

lemma append_step:
  assumes "p = None \<or> (\<exists>acts. q = Some acts)"
  shows "\<exists>rs. append_metrics (calculate_metrics p q s a) results = Inr (results @ rs)
           \<and> (\<forall>m\<in>set rs. asset m = a \<and> strategy m = s)
           \<and> (p = None \<or> p = Some [] \<longrightarrow> rs = [])
           \<and> (\<forall>ps. p = Some ps \<and> ps \<noteq> [] \<longrightarrow> rs \<noteq> [])"
proof (cases p)
  case None
  then show ?thesis by (simp add: calculate_metrics_def append_metrics_def)
next
  case (Some ps)
  with assms obtain acts where q: "q = Some acts" by auto
  show ?thesis
  proof (cases "ps = []")
    case True
    with Some show ?thesis by (simp add: calculate_metrics_def append_metrics_def)
  next
    case False
    with Some q show ?thesis
      by (simp add: calculate_metrics_def append_metrics_def Let_def)
  qed
qed

lemma ai_strategy_shape:
  "fst (ai_strategy env data) = None \<or> (\<exists>acts. snd (ai_strategy env data) = Some acts)"
  by (simp add: ai_strategy_def Let_def split: option.splits)

lemma ai_strategy_short:
  "length data \<le> 31 \<Longrightarrow>
   fst (ai_strategy env data) = None \<or> fst (ai_strategy env data) = Some []"
  by (simp add: ai_strategy_def Let_def ai_windows_def scale_data_def SEQ_LENGTH_def
      split: option.splits)

lemma ai_strategy_missing:
  "\<not> model_exists env \<or> \<not> scaler_exists env \<or> session env = None \<Longrightarrow>
   ai_strategy env data = (None, None)"
  by (auto simp: ai_strategy_def Let_def)

lemma heuristic_strategy_shape:
  "\<exists>ps acts. heuristic_strategy data = (Some ps, Some acts) \<and> length ps = length data - 31"
  by (simp add: heuristic_strategy_def)

lemma buyhold_strategy_shape:
  "\<exists>ps acts. buyhold_strategy data = (Some ps, Some acts) \<and> length ps = length data - 31"
  by (simp add: buyhold_strategy_def)

lemma run_asset_shape:
  "\<exists>rs. run_asset env a fetched results = Inr (results @ rs)
     \<and> (\<forall>m\<in>set rs. asset m = a)
     \<and> (\<not> model_exists env \<or> \<not> scaler_exists env \<or> session env = None
          \<longrightarrow> (\<forall>m\<in>set rs. strategy m \<noteq> ''AI Model''))
     \<and> (\<forall>d. fetched = Some d \<and> 31 < length d \<longrightarrow>
          (\<exists>m\<in>set rs. strategy m = ''Heuristic'') \<and> (\<exists>m\<in>set rs. strategy m = ''Buy & Hold''))
     \<and> (fetched = None \<or> (\<exists>d. fetched = Some d \<and> length d \<le> 31) \<longrightarrow> rs = [])"
proof (cases fetched)
  case None
  then show ?thesis by (simp add: run_asset_def)
next
  case (Some data)
  obtain p1 q1 where s1: "ai_strategy env data = (p1, q1)" by (cases "ai_strategy env data")
  obtain p2 q2 where s2: "heuristic_strategy data = (Some p2, Some q2)"
    and l2: "length p2 = length data - 31"
    using heuristic_strategy_shape by blast
  obtain p3 q3 where s3: "buyhold_strategy data = (Some p3, Some q3)"
    and l3: "length p3 = length data - 31"
    using buyhold_strategy_shape by blast
  have sh1: "p1 = None \<or> (\<exists>acts. q1 = Some acts)"
    using ai_strategy_shape [of env data] s1 by simp
  obtain r1 where a1: "append_metrics (calculate_metrics p1 q1 ''AI Model'' a) results = Inr (results @ r1)"
    and m1: "\<forall>m\<in>set r1. asset m = a \<and> strategy m = ''AI Model''"
    and e1: "p1 = None \<or> p1 = Some [] \<longrightarrow> r1 = []"
    using append_step [OF sh1, of "''AI Model''" a results] by blast
  obtain r2 where a2: "append_metrics (calculate_metrics (Some p2) (Some q2) ''Heuristic'' a) (results @ r1)
                        = Inr (results @ r1 @ r2)"
    and m2: "\<forall>m\<in>set r2. asset m = a \<and> strategy m = ''Heuristic''"
    and n2: "p2 \<noteq> [] \<longrightarrow> r2 \<noteq> []" and e2: "p2 = [] \<longrightarrow> r2 = []"
    using append_step [of "Some p2" "Some q2" "''Heuristic''" a "results @ r1"] by auto
  obtain r3 where a3: "append_metrics (calculate_metrics (Some p3) (Some q3) ''Buy & Hold'' a) (results @ r1 @ r2)
                        = Inr (results @ r1 @ r2 @ r3)"
    and m3: "\<forall>m\<in>set r3. asset m = a \<and> strategy m = ''Buy & Hold''"
    and n3: "p3 \<noteq> [] \<longrightarrow> r3 \<noteq> []" and e3: "p3 = [] \<longrightarrow> r3 = []"
    using append_step [of "Some p3" "Some q3" "''Buy & Hold''" a "results @ r1 @ r2"] by auto
  have run: "run_asset env a fetched results = Inr (results @ (r1 @ r2 @ r3))"
    by (simp add: run_asset_def Some s1 s2 s3 a1 a2 a3)
  have all_a: "\<forall>m\<in>set (r1 @ r2 @ r3). asset m = a"
    using m1 m2 m3 by auto
  have no_ai: "\<forall>m\<in>set (r1 @ r2 @ r3). strategy m \<noteq> ''AI Model''"
    if "\<not> model_exists env \<or> \<not> scaler_exists env \<or> session env = None"
  proof -
    have "p1 = None" using ai_strategy_missing [OF that, of data] s1 by simp
    with e1 have "r1 = []" by simp
    with m2 m3 show ?thesis by auto
  qed
  have others: "(\<exists>m\<in>set (r1 @ r2 @ r3). strategy m = ''Heuristic'')
                \<and> (\<exists>m\<in>set (r1 @ r2 @ r3). strategy m = ''Buy & Hold'')"
    if "31 < length data"
  proof -
    from that l2 l3 have "p2 \<noteq> []" "p3 \<noteq> []" by auto
    with n2 n3 have "r2 \<noteq> []" "r3 \<noteq> []" by auto
    then obtain x y where "x \<in> set r2" "y \<in> set r3"
      by (meson last_in_set)
    with m2 m3 show ?thesis by auto
  qed
  have short: "r1 @ r2 @ r3 = []" if "length data \<le> 31"
  proof -
    have "p1 = None \<or> p1 = Some []"
      using ai_strategy_short [OF that, of env] s1 by simp
    with e1 have "r1 = []" by simp
    moreover from that l2 l3 have "p2 = []" "p3 = []" by simp_all
    ultimately show ?thesis using e2 e3 by simp
  qed
  show ?thesis
    using run all_a no_ai others short Some
    by (intro exI [of _ "r1 @ r2 @ r3"]) simp
qed

lemma run_assets_shape:
  "\<exists>rs. run_assets envs fetch as results = Inr (results @ rs)
     \<and> (\<forall>m\<in>set rs. asset m \<in> set as)
     \<and> (\<forall>a. \<not> model_exists (envs a) \<or> \<not> scaler_exists (envs a) \<or> session (envs a) = None
            \<longrightarrow> (\<forall>m\<in>set rs. \<not> (asset m = a \<and> strategy m = ''AI Model'')))
     \<and> (\<forall>a\<in>set as. \<forall>d. fetch a = Some d \<and> 31 < length d \<longrightarrow>
            (\<exists>m\<in>set rs. asset m = a \<and> strategy m = ''Heuristic'')
          \<and> (\<exists>m\<in>set rs. asset m = a \<and> strategy m = ''Buy & Hold''))
     \<and> (\<forall>a. fetch a = None \<or> (\<exists>d. fetch a = Some d \<and> length d \<le> 31) \<longrightarrow>
            (\<forall>m\<in>set rs. asset m \<noteq> a))"
proof (induction as arbitrary: results)
  case Nil
  show ?case by simp
next
  case (Cons b as)
  obtain r1 where run1: "run_asset (envs b) b (fetch b) results = Inr (results @ r1)"
    and own: "\<forall>m\<in>set r1. asset m = b"
    and noai: "\<not> model_exists (envs b) \<or> \<not> scaler_exists (envs b) \<or> session (envs b) = None
                \<longrightarrow> (\<forall>m\<in>set r1. strategy m \<noteq> ''AI Model'')"
    and oth: "\<forall>d. fetch b = Some d \<and> 31 < length d \<longrightarrow>
          (\<exists>m\<in>set r1. strategy m = ''Heuristic'') \<and> (\<exists>m\<in>set r1. strategy m = ''Buy & Hold'')"
    and emp: "fetch b = None \<or> (\<exists>d. fetch b = Some d \<and> length d \<le> 31) \<longrightarrow> r1 = []"
    using run_asset_shape [of "envs b" b "fetch b" results]
    by (elim exE conjE) (rule that)
  obtain r2 where run2: "run_assets envs fetch as (results @ r1) = Inr (results @ r1 @ r2)"
    and in2: "\<forall>m\<in>set r2. asset m \<in> set as"
    and noai2: "\<forall>a. \<not> model_exists (envs a) \<or> \<not> scaler_exists (envs a) \<or> session (envs a) = None
            \<longrightarrow> (\<forall>m\<in>set r2. \<not> (asset m = a \<and> strategy m = ''AI Model''))"
    and oth2: "\<forall>a\<in>set as. \<forall>d. fetch a = Some d \<and> 31 < length d \<longrightarrow>
            (\<exists>m\<in>set r2. asset m = a \<and> strategy m = ''Heuristic'')
          \<and> (\<exists>m\<in>set r2. asset m = a \<and> strategy m = ''Buy & Hold'')"
    and emp2: "\<forall>a. fetch a = None \<or> (\<exists>d. fetch a = Some d \<and> length d \<le> 31) \<longrightarrow>
            (\<forall>m\<in>set r2. asset m \<noteq> a)"
    using Cons.IH [of "results @ r1"] unfolding append_assoc
    by (elim exE conjE) (rule that)
  have run: "run_assets envs fetch (b # as) results = Inr (results @ (r1 @ r2))"
    by (simp add: run1 run2)
  have c1: "\<forall>m\<in>set (r1 @ r2). asset m \<in> set (b # as)"
    using own in2 by auto
  have c2: "\<forall>a. \<not> model_exists (envs a) \<or> \<not> scaler_exists (envs a) \<or> session (envs a) = None
            \<longrightarrow> (\<forall>m\<in>set (r1 @ r2). \<not> (asset m = a \<and> strategy m = ''AI Model''))"
  proof (intro allI impI ballI)
    fix a m
    assume miss: "\<not> model_exists (envs a) \<or> \<not> scaler_exists (envs a) \<or> session (envs a) = None"
      and m: "m \<in> set (r1 @ r2)"
    show "\<not> (asset m = a \<and> strategy m = ''AI Model'')"
    proof (cases "m \<in> set r1")
      case True
      with own have "asset m = b" by simp
      with True noai miss show ?thesis by auto
    next
      case False
      with m have "m \<in> set r2" by simp
      with noai2 miss show ?thesis by blast
    qed
  qed
  have c3: "\<forall>a\<in>set (b # as). \<forall>d. fetch a = Some d \<and> 31 < length d \<longrightarrow>
            (\<exists>m\<in>set (r1 @ r2). asset m = a \<and> strategy m = ''Heuristic'')
          \<and> (\<exists>m\<in>set (r1 @ r2). asset m = a \<and> strategy m = ''Buy & Hold'')"
  proof (intro ballI allI impI)
    fix a d
    assume a: "a \<in> set (b # as)" and d: "fetch a = Some d \<and> 31 < length d"
    show "(\<exists>m\<in>set (r1 @ r2). asset m = a \<and> strategy m = ''Heuristic'')
          \<and> (\<exists>m\<in>set (r1 @ r2). asset m = a \<and> strategy m = ''Buy & Hold'')"
    proof (cases "a = b")
      case True
      with oth d own show ?thesis by auto
    next
      case False
      with a have "a \<in> set as" by simp
      with oth2 d show ?thesis by auto
    qed
  qed
  have c4: "\<forall>a. fetch a = None \<or> (\<exists>d. fetch a = Some d \<and> length d \<le> 31) \<longrightarrow>
            (\<forall>m\<in>set (r1 @ r2). asset m \<noteq> a)"
  proof (intro allI impI ballI)
    fix a m
    assume short: "fetch a = None \<or> (\<exists>d. fetch a = Some d \<and> length d \<le> 31)"
      and m: "m \<in> set (r1 @ r2)"
    show "asset m \<noteq> a"
    proof (cases "m \<in> set r1")
      case True
      with own have b: "asset m = b" by simp
      from True have "r1 \<noteq> []" by auto
      with emp have "\<not> (fetch b = None \<or> (\<exists>d. fetch b = Some d \<and> length d \<le> 31))" by auto
      with short b show ?thesis by auto
    next
      case False
      with m have "m \<in> set r2" by simp
      with emp2 short show ?thesis by blast
    qed
  qed
  show ?case using run c1 c2 c3 c4
    by (intro exI [of _ "r1 @ r2"] conjI)
qed

text \<open>
  Claim C10. Without predictions (\<open>None\<close>, or an empty list) \<open>calculate_metrics\<close> returns
  \<open>None\<close> and divides by nothing. When the model file or the scaler file of asset \<open>a\<close> is
  missing, or its session fails to load, \<open>ai_strategy\<close> returns \<open>(None, None)\<close>; the run of
  \<open>main\<close> still completes, its results hold no \<open>AI Model\<close> record for \<open>a\<close>, and they do
  hold the \<open>Heuristic\<close> and \<open>Buy & Hold\<close> records of \<open>a\<close> whenever its data was fetched with
  more than 31 candles. An asset fetched with at most 31 candles gives every strategy an empty
  prediction list and leaves no record at all. The summary of a strategy is computed from
  these results alone.
\<close>

theorem missing_predictions_are_skipped:
  assumes "\<not> model_exists (envs a) \<or> \<not> scaler_exists (envs a) \<or> session (envs a) = None"
  shows "calculate_metrics None actuals s x = Inr None
       \<and> calculate_metrics (Some []) actuals s x = Inr None
       \<and> ai_strategy (envs a) data = (None, None)
       \<and> (\<exists>results. main_results envs fetch = Inr results
            \<and> (\<forall>m\<in>set results. \<not> (asset m = a \<and> strategy m = ''AI Model''))
            \<and> (\<forall>d. a \<in> set ASSETS \<and> fetch a = Some d \<and> 31 < length d \<longrightarrow>
                 (\<exists>m\<in>set results. asset m = a \<and> strategy m = ''Heuristic'')
               \<and> (\<exists>m\<in>set results. asset m = a \<and> strategy m = ''Buy & Hold''))
            \<and> (\<forall>b d. fetch b = Some d \<and> length d \<le> 31 \<longrightarrow>
                 (\<forall>m\<in>set results. asset m \<noteq> b)))"
proof -
  obtain rs where run: "run_assets envs fetch ASSETS [] = Inr ([] @ rs)"
    and noai: "\<forall>a. \<not> model_exists (envs a) \<or> \<not> scaler_exists (envs a) \<or> session (envs a) = None
            \<longrightarrow> (\<forall>m\<in>set rs. \<not> (asset m = a \<and> strategy m = ''AI Model''))"
    and oth: "\<forall>a\<in>set ASSETS. \<forall>d. fetch a = Some d \<and> 31 < length d \<longrightarrow>
            (\<exists>m\<in>set rs. asset m = a \<and> strategy m = ''Heuristic'')
          \<and> (\<exists>m\<in>set rs. asset m = a \<and> strategy m = ''Buy & Hold'')"
    and emp: "\<forall>a. fetch a = None \<or> (\<exists>d. fetch a = Some d \<and> length d \<le> 31) \<longrightarrow>
            (\<forall>m\<in>set rs. asset m \<noteq> a)"
    using run_assets_shape [of envs fetch ASSETS "[]"]
    by (elim exE conjE) (rule that)
  have main: "main_results envs fetch = Inr rs"
    using run by (simp add: main_results_def)
  have 1: "\<forall>m\<in>set rs. \<not> (asset m = a \<and> strategy m = ''AI Model'')"
    using noai [rule_format, OF assms] by (intro ballI)
  have 2: "\<forall>d. a \<in> set ASSETS \<and> fetch a = Some d \<and> 31 < length d \<longrightarrow>
                 (\<exists>m\<in>set rs. asset m = a \<and> strategy m = ''Heuristic'')
               \<and> (\<exists>m\<in>set rs. asset m = a \<and> strategy m = ''Buy & Hold'')"
    using oth by simp
  have 3: "\<forall>b d. fetch b = Some d \<and> length d \<le> 31 \<longrightarrow> (\<forall>m\<in>set rs. asset m \<noteq> b)"
    using emp by blast
  show ?thesis
    using main 1 2 3 ai_strategy_missing [OF assms, of data]
      calculate_metrics_no_predictions [of actuals s x]
    by (intro conjI exI [of _ rs])
qed

lemma flat_upt: "[30 ..< 33 - 1] = [30, 31]"
  by (simp add: upt_rec)

lemma py_round2_100: "py_round2 100 = 100" "py_round2 0 = 0" "py_round2 2 = 2" "py_round2 (- 2) = - 2"
  using py_round2_of_int [of 100] py_round2_of_int [of 0] py_round2_of_int [of 2]
    py_round2_of_int [of "- 2"] by simp_all

text \<open>
  BTC has no model file and 33 candles: two records, none of the AI model. ETH has its
  artifacts but only 5 candles: every prediction list is empty and ETH leaves no record.
\<close>

theorem missing_predictions_witness:
  "ai_strategy (envs_eth_only ''BTC'') (replicate 33 (100, 5)) = (None, None)
   \<and> ai_strategy (envs_eth_only ''ETH'') (replicate 5 (100, 5)) = (Some [], Some [])
   \<and> main_results envs_eth_only fetch_btc_eth =
       Inr [\<lparr> asset = ''BTC'', strategy = ''Heuristic'', accuracy = 100, total_return = 2,
               num_predictions = 2 \<rparr>,
            \<lparr> asset = ''BTC'', strategy = ''Buy & Hold'', accuracy = 0, total_return = - 2,
               num_predictions = 2 \<rparr>]"
proof -
  have h: "heuristic_strategy (replicate 33 (100, 5)) = (Some [- 1, - 1], Some [- 1, - 1])"
    by (simp add: heuristic_strategy_def flat_upt heuristic_predicted_direction_def
        actual_direction_def slice_def np_mean_def Let_def sum_list_replicate)
  have b: "buyhold_strategy (replicate 33 (100, 5)) = (Some [1, 1], Some [- 1, - 1])"
    by (simp add: buyhold_strategy_def flat_upt actual_direction_def)
  have a: "ai_strategy env_missing (replicate 33 (100, 5)) = (None, None)"
    by (simp add: ai_strategy_def env_missing_def)
  have short: "heuristic_strategy (replicate 5 (100, 5)) = (Some [], Some [])"
    "buyhold_strategy (replicate 5 (100, 5)) = (Some [], Some [])"
    "ai_strategy env_ok (replicate 5 (100, 5)) = (Some [], Some [])"
    by (simp_all add: heuristic_strategy_def buyhold_strategy_def ai_strategy_def env_ok_def
        ai_windows_def scale_data_def SEQ_LENGTH_def Let_def)
  have mh: "calculate_metrics (Some [- 1, - 1]) (Some [- 1, - 1]) ''Heuristic'' ''BTC'' =
      Inr (Some \<lparr> asset = ''BTC'', strategy = ''Heuristic'', accuracy = 100, total_return = 2,
               num_predictions = 2 \<rparr>)"
    by (simp add: calculate_metrics_def count_correct_def trade_returns_def Let_def py_round2_100)
  have mb: "calculate_metrics (Some [1, 1]) (Some [- 1, - 1]) ''Buy & Hold'' ''BTC'' =
      Inr (Some \<lparr> asset = ''BTC'', strategy = ''Buy & Hold'', accuracy = 0, total_return = - 2,
               num_predictions = 2 \<rparr>)"
    by (simp add: calculate_metrics_def count_correct_def trade_returns_def Let_def py_round2_100)
  have ma: "calculate_metrics None None s x = Inr None"
    "calculate_metrics (Some []) (Some []) s x = Inr None" for s x
    by (simp_all add: calculate_metrics_def)
  have envs: "envs_eth_only ''BTC'' = env_missing" "envs_eth_only ''ETH'' = env_ok"
    "envs_eth_only ''SOL'' = env_missing" "envs_eth_only ''LTC'' = env_missing"
    by (simp_all add: envs_eth_only_def)
  show ?thesis
    using missing_predictions_are_skipped [of envs_eth_only "''BTC''" None "''AI Model''" "''BTC''"
        "replicate 33 (100, 5)" fetch_btc_eth]
    by (simp add: main_results_def ASSETS_def run_asset_def fetch_btc_eth_def envs a h b short
        mh mb ma append_metrics_def)
qed

text \<open>
  Claim C6. The summary line of a strategy is the arithmetic mean of the \<open>accuracy\<close> values
  and the arithmetic mean of the \<open>total_return\<close> values of the records with that strategy
  name. It is not the pooled figure: for one asset with 1 of 1 correct and another with 0 of
  3 correct the summary is \<open>(50, -1)\<close>, while the pooled accuracy is \<open>25\<close> and the pooled
  return \<open>-2\<close>.
\<close>

theorem strategy_summary_is_mean_of_means:
  assumes "filter (\<lambda>m. strategy m = s) results \<noteq> []"
  shows "strategy_summary results s =
           Inr (Some (sum_list (map accuracy (filter (\<lambda>m. strategy m = s) results))
                        / real (length (filter (\<lambda>m. strategy m = s) results)),
                      sum_list (map total_return (filter (\<lambda>m. strategy m = s) results))
                        / real (length (filter (\<lambda>m. strategy m = s) results))))
       \<and> calculate_metrics (Some [1]) (Some [1]) ''Buy & Hold'' ''BTC'' =
           Inr (Some \<lparr> asset = ''BTC'', strategy = ''Buy & Hold'', accuracy = 100,
                        total_return = 1, num_predictions = 1 \<rparr>)
       \<and> calculate_metrics (Some [1, 1, 1]) (Some [- 1, - 1, - 1]) ''Buy & Hold'' ''ETH'' =
           Inr (Some \<lparr> asset = ''ETH'', strategy = ''Buy & Hold'', accuracy = 0,
                        total_return = - 3, num_predictions = 3 \<rparr>)
       \<and> strategy_summary
             [\<lparr> asset = ''BTC'', strategy = ''Buy & Hold'', accuracy = 100,
                 total_return = 1, num_predictions = 1 \<rparr>,
              \<lparr> asset = ''ETH'', strategy = ''Buy & Hold'', accuracy = 0,
                 total_return = - 3, num_predictions = 3 \<rparr>] ''Buy & Hold'' = Inr (Some (50, - 1))
       \<and> pooled_accuracy [([1], [1]), ([1, 1, 1], [- 1, - 1, - 1])] = 25
       \<and> pooled_return [([1], [1]), ([1, 1, 1], [- 1, - 1, - 1])] = - 2"
proof (intro conjI)
  from assms have ne: "results \<noteq> []" by auto
  show "strategy_summary results s =
           Inr (Some (sum_list (map accuracy (filter (\<lambda>m. strategy m = s) results))
                        / real (length (filter (\<lambda>m. strategy m = s) results)),
                      sum_list (map total_return (filter (\<lambda>m. strategy m = s) results))
                        / real (length (filter (\<lambda>m. strategy m = s) results))))"
    using assms ne by (simp add: strategy_summary_def column_mean_def Let_def)
  have r: "py_round2 100 = 100" "py_round2 1 = 1" "py_round2 0 = 0" "py_round2 (- 3) = - 3"
    using py_round2_of_int [of 100] py_round2_of_int [of 1] py_round2_of_int [of 0]
      py_round2_of_int [of "- 3"] by simp_all
  show "calculate_metrics (Some [1]) (Some [1]) ''Buy & Hold'' ''BTC'' =
           Inr (Some \<lparr> asset = ''BTC'', strategy = ''Buy & Hold'', accuracy = 100,
                        total_return = 1, num_predictions = 1 \<rparr>)"
    by (simp add: calculate_metrics_def count_correct_def trade_returns_def Let_def r)
  show "calculate_metrics (Some [1, 1, 1]) (Some [- 1, - 1, - 1]) ''Buy & Hold'' ''ETH'' =
           Inr (Some \<lparr> asset = ''ETH'', strategy = ''Buy & Hold'', accuracy = 0,
                        total_return = - 3, num_predictions = 3 \<rparr>)"
    by (simp add: calculate_metrics_def count_correct_def trade_returns_def Let_def r)
  show "strategy_summary
             [\<lparr> asset = ''BTC'', strategy = ''Buy & Hold'', accuracy = 100,
                 total_return = 1, num_predictions = 1 \<rparr>,
              \<lparr> asset = ''ETH'', strategy = ''Buy & Hold'', accuracy = 0,
                 total_return = - 3, num_predictions = 3 \<rparr>] ''Buy & Hold'' = Inr (Some (50, - 1))"
    by (simp add: strategy_summary_def column_mean_def Let_def)
  show "pooled_accuracy [([1], [1]), ([1, 1, 1], [- 1, - 1, - 1])] = 25"
    by (simp add: pooled_accuracy_def count_correct_def)
  show "pooled_return [([1], [1]), ([1, 1, 1], [- 1, - 1, - 1])] = - 2"
    by (simp add: pooled_return_def trade_returns_def)
qed

text \<open>Three records, two of them of the AI model.\<close>

theorem strategy_summary_witness:
  "strategy_summary
     [\<lparr> asset = ''BTC'', strategy = ''AI Model'', accuracy = 60, total_return = 4, num_predictions = 20 \<rparr>,
      \<lparr> asset = ''BTC'', strategy = ''Heuristic'', accuracy = 10, total_return = - 8, num_predictions = 10 \<rparr>,
      \<lparr> asset = ''ETH'', strategy = ''AI Model'', accuracy = 50, total_return = 0, num_predictions = 10 \<rparr>]
     ''AI Model'' = Inr (Some (55, 2))"
  using strategy_summary_is_mean_of_means [of "''AI Model''"
     "[\<lparr> asset = ''BTC'', strategy = ''AI Model'', accuracy = 60, total_return = 4, num_predictions = 20 \<rparr>,
      \<lparr> asset = ''BTC'', strategy = ''Heuristic'', accuracy = 10, total_return = - 8, num_predictions = 10 \<rparr>,
      \<lparr> asset = ''ETH'', strategy = ''AI Model'', accuracy = 50, total_return = 0, num_predictions = 10 \<rparr>]"]
  by simp

section \<open>Properties of the labelling and window loops\<close>





lemma slice_length: "b \<le> length xs \<Longrightarrow> length (slice xs a b) = b - a"
  by (simp add: slice_def)

lemma slice_nth: "b \<le> length xs \<Longrightarrow> j < b - a \<Longrightarrow> slice xs a b ! j = xs ! (a + j)"
  by (simp add: slice_def)

text \<open>
  Claim C3. With \<open>matrix_length\<close> the number of feature rows from the warm-up on
  (\<open>len(closes) - 200\<close> in \<open>create_sequences\<close>, whose feature array has one row per candle;
  the whole of \<open>scaled_data\<close> in \<open>ai_strategy\<close>, with horizon 1 and \<open>seq_length = 30\<close>), the
  loop produces exactly \<open>max(0, matrix_length - seq_length - horizon)\<close> windows. The anchors
  are consecutive (stride 1), hence strictly increasing and distinct, and the window of anchor
  \<open>i\<close> is the \<open>seq_length\<close> rows \<open>i - seq_length, ..., i - 1\<close>.
\<close>

theorem windows_count_and_content:
  assumes "length features = length closes"
  shows "int (length (fst (create_sequences features closes L h))) =
           max 0 (int (length closes - 200) - int L - int h)
       \<and> length (snd (create_sequences features closes L h)) =
           length (fst (create_sequences features closes L h))
       \<and> length (sequence_anchors closes L h) = length (fst (create_sequences features closes L h))
       \<and> sorted_wrt (<) (sequence_anchors closes L h)
       \<and> distinct (sequence_anchors closes L h)
       \<and> (\<forall>k. k < length (fst (create_sequences features closes L h)) \<longrightarrow>
             sequence_anchors closes L h ! k = 200 + L + k
           \<and> fst (create_sequences features closes L h) ! k = slice features (200 + k) (200 + L + k)
           \<and> length (fst (create_sequences features closes L h) ! k) = L
           \<and> (\<forall>j. j < L \<longrightarrow> fst (create_sequences features closes L h) ! k ! j = features ! (200 + k + j)))
       \<and> int (length (ai_windows scaled_data)) = max 0 (int (length scaled_data) - int SEQ_LENGTH - 1)
       \<and> sorted_wrt (<) (map fst (ai_windows scaled_data))
       \<and> distinct (map fst (ai_windows scaled_data))
       \<and> (\<forall>k. k < length (ai_windows scaled_data) \<longrightarrow>
             ai_windows scaled_data ! k = (SEQ_LENGTH + k, slice scaled_data k (SEQ_LENGTH + k))
           \<and> length (snd (ai_windows scaled_data ! k)) = SEQ_LENGTH
           \<and> (\<forall>j. j < SEQ_LENGTH \<longrightarrow> snd (ai_windows scaled_data ! k) ! j = scaled_data ! (k + j)))"
proof (intro conjI allI impI)
  show "int (length (fst (create_sequences features closes L h))) =
           max 0 (int (length closes - 200) - int L - int h)"
    by (simp add: create_sequences_def sequence_anchors_def)
  show "length (snd (create_sequences features closes L h)) =
           length (fst (create_sequences features closes L h))"
    by (simp add: create_sequences_def)
  show "length (sequence_anchors closes L h) = length (fst (create_sequences features closes L h))"
    by (simp add: create_sequences_def)
  show "sorted_wrt (<) (sequence_anchors closes L h)"
    by (simp add: sequence_anchors_def)
  show "distinct (sequence_anchors closes L h)"
    by (simp add: sequence_anchors_def)
  show "int (length (ai_windows scaled_data)) = max 0 (int (length scaled_data) - int SEQ_LENGTH - 1)"
    by (simp add: ai_windows_def)
  have fsts: "map fst (ai_windows scaled_data) = [SEQ_LENGTH ..< length scaled_data - 1]"
    by (simp add: ai_windows_def comp_def)
  show "sorted_wrt (<) (map fst (ai_windows scaled_data))"
    by (simp add: fsts)
  show "distinct (map fst (ai_windows scaled_data))"
    by (simp add: fsts)
next
  fix k
  assume "k < length (fst (create_sequences features closes L h))"
  then have k: "200 + L + k < length closes - h"
    by (simp add: create_sequences_def sequence_anchors_def)
  then have b: "200 + L + k \<le> length features"
    using assms by simp
  show a: "sequence_anchors closes L h ! k = 200 + L + k"
    using k by (simp add: sequence_anchors_def)
  show w: "fst (create_sequences features closes L h) ! k = slice features (200 + k) (200 + L + k)"
  proof -
    have "k < length (sequence_anchors closes L h)"
      using k by (simp add: sequence_anchors_def)
    then have "fst (create_sequences features closes L h) ! k =
               slice features (sequence_anchors closes L h ! k - L) (sequence_anchors closes L h ! k)"
      by (simp add: create_sequences_def)
    then show ?thesis by (simp add: a)
  qed
  show "length (fst (create_sequences features closes L h) ! k) = L"
    using b by (simp add: w slice_length)
  show "fst (create_sequences features closes L h) ! k ! j = features ! (200 + k + j)" if "j < L" for j
    using b that by (simp add: w slice_nth)
next
  fix k
  assume "k < length (ai_windows scaled_data)"
  then have k: "SEQ_LENGTH + k < length scaled_data - 1"
    by (simp add: ai_windows_def)
  then have b: "SEQ_LENGTH + k \<le> length scaled_data" by simp
  show w: "ai_windows scaled_data ! k = (SEQ_LENGTH + k, slice scaled_data k (SEQ_LENGTH + k))"
    using k by (simp add: ai_windows_def, simp)
  show "length (snd (ai_windows scaled_data ! k)) = SEQ_LENGTH"
    using b by (simp add: w slice_length)
  show "snd (ai_windows scaled_data ! k) ! j = scaled_data ! (k + j)" if "j < SEQ_LENGTH" for j
    using b that by (simp add: w slice_nth)
qed

text \<open>
  203 rows with sequence length 2 and horizon 0: the one window, anchored at 202, holds rows
  200 and 201. 32 scaled rows give \<open>ai_strategy\<close> one window, anchored at 30.
\<close>

theorem windows_count_and_content_witness:
  "fst (create_sequences [0 ..< 203] (replicate 203 100) 2 0) = [[200, 201]]
   \<and> sequence_anchors (replicate 203 100) 2 0 = [202]
   \<and> length (ai_windows (replicate 32 (Fin 0, Fin 0))) = 1
   \<and> fst (ai_windows (replicate 32 (Fin 0, Fin 0)) ! 0) = 30"
  using windows_count_and_content [of "[0 ..< 203]" "replicate 203 100" 2 0 "replicate 32 (Fin 0, Fin 0)"]
  by (simp add: create_sequences_def sequence_anchors_def slice_def ai_windows_def SEQ_LENGTH_def
      upt_rec)

text \<open>
  Claim C9, as amended. Neither error exists in the scripts, and a short series is not
  reported: \<open>calculate_features\<close> returns an empty feature matrix exactly for the series of
  at most 200 candles (the series is a two-dimensional array with at least one row), and
  \<open>create_sequences\<close> returns no window and no label exactly when
  \<open>len(closes) \<le> 200 + seq_length + look_ahead\<close>.
\<close>

theorem short_series_give_empty_results:
  "(ohlcv \<noteq> [] \<longrightarrow> (calculate_features ohlcv = [] \<longleftrightarrow> length ohlcv \<le> 200))
   \<and> (create_sequences features closes L h = ([], []) \<longleftrightarrow> length closes \<le> 200 + L + h)"
proof (intro conjI impI)
  show "calculate_features ohlcv = [] \<longleftrightarrow> length ohlcv \<le> 200"
    by (auto simp: calculate_features_def)
  have "sequence_anchors closes L h = [] \<longleftrightarrow> length closes \<le> 200 + L + h"
    by (auto simp: sequence_anchors_def)
  then show "create_sequences features closes L h = ([], []) \<longleftrightarrow> length closes \<le> 200 + L + h"
    by (simp add: create_sequences_def)
qed

text \<open>One candle; and 266 closes with the default sequence length 60 and horizon 6.\<close>

theorem short_series_give_empty_results_witness:
  "calculate_features [flat_candle] = []
   \<and> create_sequences (replicate 266 (0 :: nat)) (replicate 266 100) SEQUENCE_LENGTH 6 = ([], [])"
  using short_series_give_empty_results [of "[flat_candle]" "replicate 266 (0 :: nat)"
      "replicate 266 100" SEQUENCE_LENGTH 6]
  by (simp add: SEQUENCE_LENGTH_def)

text \<open>
  Claim C9 as stated fails: for a series of 200 candles (not longer than the warm-up) the
  feature matrix is empty and nothing is raised; for 200 closes the window sequence and the
  label sequence are empty.
\<close>

theorem short_series_counterexample:
  "calculate_features (replicate 200 flat_candle) = []
   \<and> create_sequences (replicate 200 (0 :: nat)) (replicate 200 100) 60 6 = ([], [])"
  by (simp add: calculate_features_def create_sequences_def sequence_anchors_def)

section \<open>Properties of the indicator computations\<close>

lemma fp_sub_Fin [simp]: "fp_sub (Fin a) (Fin b) = Fin (a - b)"
  by (simp add: fp_sub_def)




lemma sum_list_max_nonneg: "0 \<le> sum_list (map (\<lambda>x. max (f x) (0::real)) xs)"
  by (rule sum_list_nonneg) auto


lemma avg_nonneg:
  "\<exists>g. 0 \<le> g \<and> (if length (map (\<lambda>d. max (f d) (0::real)) ds) > 0
                    then np_mean (map (\<lambda>d. max (f d) 0) ds) else Fin 0) = Fin g"
proof (cases "ds = []")
  case True
  then show ?thesis by simp
next
  case False
  have "0 \<le> sum_list (map (\<lambda>d. max (f d) 0) ds) / real (length ds)"
    using sum_list_max_nonneg [of f ds] by simp
  with False show ?thesis by (simp add: np_mean_def)
qed





























lemma rising_window:
  "slice rising_closes 186 201 =
     [286, 287, 288, 289, 290, 291, 292, 293, 294, 295, 296, 297, 298, 299, 300]"
  by (simp add: rising_closes_def slice_def drop_map take_map upt_rec)

lemma rising_nth: "j < 201 \<Longrightarrow> rising_closes ! j = 100 + real j"
  by (simp add: rising_closes_def)

text \<open>
  Claim C4 at a strictly rising series (closes 100, 101, ..., 300), index 200: every delta of the
  RSI window is a gain of 1 and the average loss is 0. \<open>calculate_features\<close> sets \<open>rs = 0\<close> in
  that case and stores an RSI of 0; \<open>calculate_technical_indicators\<close> stores 100.
\<close>

theorem rsi_without_losses:
  "rsi_mt rising_closes 200 = Fin 0 \<and> rsi_lstm rising_closes 200 = Fin 100"
proof
  show "rsi_mt rising_closes 200 = Fin 0"
    by (simp add: rsi_mt_def Let_def rising_window np_diff_def np_mean_def)
  have r: "[200 - 14 ..< 200] = [186, 187, 188, 189, 190, 191, 192, 193, 194, 195, 196, 197, 198, 199]"
    by (simp add: upt_rec)
  show "rsi_lstm rising_closes 200 = Fin 100"
    unfolding rsi_lstm_def Let_def r by (simp add: rising_nth)
qed

text \<open>
  Claim C8 at 200 candles with high 101, low 99, close 100 followed by one candle whose
  high, low and close are all 100, index 200: the true range is 2 for each of the earlier
  candles and 0 for the current one. \<open>calculate_features\<close> stores the current candle's true
  range over the close, 0; the mean true range over the 14 candles before index 200 (what
  \<open>calculate_technical_indicators\<close> stores) gives 2 / 100, and the mean over the 14 candles
  up to and including index 200 gives (26 / 14) / 100.
\<close>

theorem atr_is_single_true_range:
  "atr_mt quiet_last_highs quiet_last_lows quiet_last_closes 200 = Fin 0
   \<and> atr_lstm quiet_last_highs quiet_last_lows quiet_last_closes 200 = Fin (1 / 50)
   \<and> sum_list (map (\<lambda>j. true_range quiet_last_highs quiet_last_lows quiet_last_closes j)
                [187 ..< 201]) / 14 / quiet_last_closes ! 200 = 13 / 700"
proof (intro conjI)
  have tr_old: "j < 200 \<Longrightarrow> true_range quiet_last_highs quiet_last_lows quiet_last_closes j = 2" for j
    by (simp add: true_range_def quiet_last_highs_def quiet_last_lows_def quiet_last_closes_def
        nth_append)
  have tr_new: "true_range quiet_last_highs quiet_last_lows quiet_last_closes 200 = 0"
    by (simp add: true_range_def quiet_last_highs_def quiet_last_lows_def quiet_last_closes_def
        nth_append)
  have c: "quiet_last_closes ! 200 = 100"
    by (simp add: quiet_last_closes_def)
  show "atr_mt quiet_last_highs quiet_last_lows quiet_last_closes 200 = Fin 0"
    by (simp add: atr_mt_def Let_def tr_new c)
  have r: "[200 - 14 ..< 200] = [186, 187, 188, 189, 190, 191, 192, 193, 194, 195, 196, 197, 198, 199]"
    by (simp add: upt_rec)
  show "atr_lstm quiet_last_highs quiet_last_lows quiet_last_closes 200 = Fin (1 / 50)"
    unfolding atr_lstm_def Let_def r by (simp add: tr_old c np_mean_def)
  have r': "[187 ..< 201] = [187, 188, 189, 190, 191, 192, 193, 194, 195, 196, 197, 198, 199, 200]"
    by (simp add: upt_rec)
  show "sum_list (map (\<lambda>j. true_range quiet_last_highs quiet_last_lows quiet_last_closes j)
                [187 ..< 201]) / 14 / quiet_last_closes ! 200 = 13 / 700"
    unfolding r' by (simp add: tr_old tr_new c)
qed

section \<open>Further properties\<close>

lemma rs_in_range:
  assumes "0 \<le> g" and "0 \<le> l"
  shows "\<exists>x. fp_sub (Fin 100)
           (fp_div (Fin 100)
              (fp_add (Fin 1) (if Fin l \<noteq> Fin 0 then fp_div (Fin g) (Fin l) else Fin 0))) = Fin x
          \<and> 0 \<le> x \<and> x \<le> 100"
proof (cases "l = 0")
  case True
  then show ?thesis by simp
next
  case False
  with assms have r: "0 \<le> g / l" by simp
  then have pos: "0 < 1 + g / l" by linarith
  have "100 / (1 + g / l) \<le> 100 / 1"
    using r by (intro divide_left_mono) simp_all
  moreover have "0 \<le> 100 / (1 + g / l)" using pos by simp
  ultimately show ?thesis using False pos by simp
qed

text \<open>
  The RSI of both scripts is a finite number between 0 and 100, at every index and for every
  close series.
\<close>

theorem rsi_between_0_and_100:
  "(\<exists>x. rsi_mt closes i = Fin x \<and> 0 \<le> x \<and> x \<le> 100)
   \<and> (\<exists>x. rsi_lstm closes i = Fin x \<and> 0 \<le> x \<and> x \<le> 100)"
proof
  let ?ds = "np_diff (slice closes (i - 14) (i + 1))"
  obtain g where g: "0 \<le> g"
    "(if length (map (\<lambda>d. max d (0::real)) ?ds) > 0 then np_mean (map (\<lambda>d. max d 0) ?ds) else Fin 0) = Fin g"
    using avg_nonneg [of "\<lambda>d. d" ?ds] by blast
  obtain l where l: "0 \<le> l"
    "(if length (map (\<lambda>d. max (- d) (0::real)) ?ds) > 0 then np_mean (map (\<lambda>d. max (- d) 0) ?ds) else Fin 0) = Fin l"
    using avg_nonneg [of "\<lambda>d. - d" ?ds] by blast
  show "\<exists>x. rsi_mt closes i = Fin x \<and> 0 \<le> x \<and> x \<le> 100"
    unfolding rsi_mt_def Let_def g(2) l(2) using rs_in_range [OF g(1) l(1)] .
next
  let ?g = "sum_list (map (\<lambda>j. max (closes ! j - closes ! (j - 1)) 0) [i - 14 ..< i]) / 14"
  let ?l = "sum_list (map (\<lambda>j. max (closes ! (j - 1) - closes ! j) 0) [i - 14 ..< i]) / 14"
  have g: "0 \<le> ?g"
    using sum_list_max_nonneg [of "\<lambda>j. closes ! j - closes ! (j - 1)" "[i - 14 ..< i]"] by simp
  have l: "0 \<le> ?l"
    using sum_list_max_nonneg [of "\<lambda>j. closes ! (j - 1) - closes ! j" "[i - 14 ..< i]"] by simp
  have "\<exists>x. fp_sub (Fin 100) (fp_div (Fin 100) (fp_add (Fin 1) (fp_div (Fin ?g) (Fin ?l)))) = Fin x
          \<and> 0 \<le> x \<and> x \<le> 100"
    if "?l \<noteq> 0"
    using rs_in_range [OF g l] that by simp
  then show "\<exists>x. rsi_lstm closes i = Fin x \<and> 0 \<le> x \<and> x \<le> 100"
    unfolding rsi_lstm_def Let_def by (simp del: fp_div.simps fp_add.simps)
qed

text \<open>
  On a constant close series every label is HOLD, in both labelling loops: the forward return
  is 0, or \<open>nan\<close> when the constant price is 0, and neither comparison holds.
\<close>

theorem constant_series_labels_hold:
  "(\<forall>l\<in>set (create_labels (replicate n c) h). l = HOLD)
   \<and> (\<forall>l\<in>set (snd (create_sequences features (replicate n c) L h)). l = HOLD)"
proof (intro conjI ballI)
  fix l assume "l \<in> set (create_labels (replicate n c) h)"
  then have "l \<in> (\<lambda>i. if fp_gt (price_change (replicate n c) h i) (Fin 2) then 2
               else if fp_lt (price_change (replicate n c) h i) (Fin (- 2)) then 0 else 1)
             ` set [200 ..< length (replicate n c) - h]"
    unfolding create_labels_def set_map .
  then obtain i where l: "l = (if fp_gt (price_change (replicate n c) h i) (Fin 2) then 2
               else if fp_lt (price_change (replicate n c) h i) (Fin (- 2)) then 0 else 1)"
    and i: "i \<in> set [200 ..< length (replicate n c) - h]"
    by (rule imageE)
  from i have "i + h < n" by auto
  then have "price_change (replicate n c) h i = (if c = 0 then NaN else Fin 0)"
    by (simp add: price_change_def)
  with l show "l = HOLD" by (simp add: HOLD_def fp_lt_def)
next
  fix l assume "l \<in> set (snd (create_sequences features (replicate n c) L h))"
  then have "l \<in> (\<lambda>i. if fp_gt (future_return (replicate n c) h i) (Fin (15 / 100)) then 2
               else if fp_lt (future_return (replicate n c) h i) (Fin (- (15 / 100))) then 0 else 1)
             ` set (sequence_anchors (replicate n c) L h)"
    unfolding create_sequences_def snd_conv set_map .
  then obtain i where l: "l = (if fp_gt (future_return (replicate n c) h i) (Fin (15 / 100)) then 2
               else if fp_lt (future_return (replicate n c) h i) (Fin (- (15 / 100))) then 0 else 1)"
    and i: "i \<in> set (sequence_anchors (replicate n c) L h)"
    by (rule imageE)
  from i have "i + h < n" by (auto simp: sequence_anchors_def)
  then have "future_return (replicate n c) h i = (if c = 0 then NaN else Fin 0)"
    by (simp add: future_return_def)
  with l show "l = HOLD" by (simp add: HOLD_def fp_lt_def)
qed

text \<open>203 closes of 100, horizon 1: two labels from \<open>create_labels\<close>, one from \<open>create_sequences\<close>.\<close>

theorem constant_series_labels_hold_witness:
  "create_labels (replicate 203 100) 1 = [HOLD, HOLD]
   \<and> snd (create_sequences ([] :: nat list) (replicate 203 100) 1 1) = [HOLD]"
  using constant_series_labels_hold [of 203 100 1 "[] :: nat list" 1]
  by (simp add: create_labels_def create_sequences_def sequence_anchors_def price_change_def
      future_return_def HOLD_def fp_lt_def upt_rec)

text \<open>
  The evaluator on one-sided inputs: when every prediction equals its actual, the accuracy
  is 100 and the return is the number of pairs; when none does, the accuracy is 0 and the
  return is minus that number.
\<close>

theorem all_correct_or_all_wrong:
  assumes "ps \<noteq> []" and "length ps = length acts"
  shows "(ps = acts \<longrightarrow>
            calculate_metrics (Some ps) (Some acts) s a =
              Inr (Some \<lparr> asset = a, strategy = s, accuracy = 100,
                           total_return = real (length ps), num_predictions = length ps \<rparr>))
       \<and> ((\<forall>k. k < length ps \<longrightarrow> ps ! k \<noteq> acts ! k) \<longrightarrow>
            calculate_metrics (Some ps) (Some acts) s a =
              Inr (Some \<lparr> asset = a, strategy = s, accuracy = 0,
                           total_return = - real (length ps), num_predictions = length ps \<rparr>))"
proof (intro conjI impI)
  have n: "0 < length ps" using assms(1) by simp
  have r: "py_round2 100 = 100" "py_round2 0 = 0"
    using py_round2_of_int [of 100] py_round2_of_int [of 0] by simp_all
  have base: "calculate_metrics (Some ps) (Some acts) s a =
            Inr (Some \<lparr> asset = a, strategy = s,
                   accuracy = py_round2 (real (count_correct ps acts) / real (length ps) * 100),
                   total_return = real (count_correct ps acts) - real (length ps - count_correct ps acts),
                   num_predictions = length ps \<rparr>)"
    using assms(1) total_return_value [OF assms(2)]
    by (simp add: calculate_metrics_def Let_def)
  { assume "ps = acts"
    then have "{k. k < length ps \<and> ps ! k = acts ! k} = {..<length ps}" by auto
    then have "count_correct ps acts = length ps"
      using count_correct_card [OF assms(2)] by simp
    with n show "calculate_metrics (Some ps) (Some acts) s a =
              Inr (Some \<lparr> asset = a, strategy = s, accuracy = 100,
                           total_return = real (length ps), num_predictions = length ps \<rparr>)"
      by (simp add: base r) }
  { assume "\<forall>k. k < length ps \<longrightarrow> ps ! k \<noteq> acts ! k"
    then have "{k. k < length ps \<and> ps ! k = acts ! k} = {}" by auto
    then have "count_correct ps acts = 0"
      using count_correct_card [OF assms(2)] by simp
    then show "calculate_metrics (Some ps) (Some acts) s a =
              Inr (Some \<lparr> asset = a, strategy = s, accuracy = 0,
                           total_return = - real (length ps), num_predictions = length ps \<rparr>)"
      by (simp add: base r) }
qed

text \<open>Two matching pairs, and two mismatching ones.\<close>

theorem all_correct_or_all_wrong_witness:
  "calculate_metrics (Some [1, - 1]) (Some [1, - 1]) ''Heuristic'' ''SOL'' =
     Inr (Some \<lparr> asset = ''SOL'', strategy = ''Heuristic'', accuracy = 100,
                  total_return = 2, num_predictions = 2 \<rparr>)
   \<and> calculate_metrics (Some [1, 0]) (Some [- 1, 1]) ''Heuristic'' ''SOL'' =
     Inr (Some \<lparr> asset = ''SOL'', strategy = ''Heuristic'', accuracy = 0,
                  total_return = - 2, num_predictions = 2 \<rparr>)"
proof -
  have w: "\<forall>k. k < length [1, 0 :: int] \<longrightarrow> [1, 0 :: int] ! k \<noteq> [- 1, 1] ! k"
    by (auto simp: nth_Cons' less_Suc_eq)
  show ?thesis
    using all_correct_or_all_wrong [of "[1, - 1]" "[1, - 1]" "''Heuristic''" "''SOL''"]
      all_correct_or_all_wrong [of "[1, 0]" "[- 1, 1]" "''Heuristic''" "''SOL''"] w
    by simp
qed

end
